theory Spec2Isabelle
  imports Main
begin

section \<open>The CodeCommit platform adapter (lib/modules/platform/codecommit/index.ts)\<close>

text \<open>
  JavaScript strings are modelled as \<open>string\<close> (code units below 256), a value that may
  be \<open>undefined\<close> or \<open>null\<close> as an \<open>option\<close>, a thrown exception or rejected promise as
  the left summand of \<open>error + 'a\<close>. The module-level \<open>config\<close> object and the sequence of
  calls made on the CodeCommit client are threaded through every operation as a \<open>World\<close>.
\<close>

subsection \<open>JavaScript values\<close>

datatype error = Error string | TypeError

datatype jsnumber = Num int | NaN | Infinity | NegInfinity

text \<open>
  Pull-request numbers are integers: \<open>Num i\<close> stands for the Number value of the integer
  \<open>i\<close>, that is for the double nearest to it. Numbers with a fractional part are outside
  the model.
\<close>

definition truthy :: "string option \<Rightarrow> bool" where
  "truthy v = (case v of None \<Rightarrow> False | Some s \<Rightarrow> s \<noteq> [])"

definition startsWith :: "string option \<Rightarrow> string \<Rightarrow> bool" where
  \<comment> \<open>\<open>v?.startsWith(p)\<close> used as a condition: \<open>undefined\<close> is falsy\<close>
  "startsWith v p = (case v of None \<Rightarrow> False | Some s \<Rightarrow> take (length p) s = p)"

definition isStrWhiteSpaceChar :: "char \<Rightarrow> bool" where
  "isStrWhiteSpaceChar c =
     (c = CHR 0x09 \<or> c = CHR 0x0A \<or> c = CHR 0x0B \<or> c = CHR 0x0C \<or> c = CHR 0x0D
      \<or> c = CHR 0x20 \<or> c = CHR 0xA0)"

definition trim :: "string \<Rightarrow> string" where
  "trim s = rev (dropWhile isStrWhiteSpaceChar (rev (dropWhile isStrWhiteSpaceChar s)))"

fun firstSome :: "('a \<Rightarrow> 'b option) \<Rightarrow> 'a list \<Rightarrow> 'b option" where
  "firstSome f [] = None"
| "firstSome f (x # xs) = (case f x of None \<Rightarrow> firstSome f xs | Some y \<Rightarrow> Some y)"

function bitLength :: "int \<Rightarrow> nat" where
  "bitLength n = (if n \<le> 0 then 0 else Suc (bitLength (n div 2)))"
  by pat_completeness auto
termination
  by (relation "measure nat") auto

declare bitLength.simps [simp del]

definition roundToDouble :: "int \<Rightarrow> int" where
  \<comment> \<open>the integer \<open>n \<ge> 0\<close> rounded to a 53-bit significand, ties to even\<close>
  "roundToDouble n =
     (if n < 2 ^ 53 then n
      else (let e = bitLength n - 53;
                q = n div 2 ^ e;
                r = n mod 2 ^ e;
                h = 2 ^ (e - 1)
            in (if h < r \<or> (r = h \<and> odd q) then q + 1 else q) * 2 ^ e))"

definition toNumber :: "int \<Rightarrow> jsnumber" where
  \<comment> \<open>the Number value of a mathematical integer; beyond the largest double it is infinite\<close>
  "toNumber i =
     (let m = roundToDouble \<bar>i\<bar>
      in if 2 ^ 1024 \<le> m then (if i < 0 then NegInfinity else Infinity)
         else Num (if i < 0 then - m else m))"

definition digitChar :: "int \<Rightarrow> char" where
  "digitChar d = char_of (48 + d)"

function digitsOf :: "int \<Rightarrow> string" where
  "digitsOf n = (if n < 10 then [digitChar n] else digitsOf (n div 10) @ [digitChar (n mod 10)])"
  by pat_completeness auto
termination
  by (relation "measure nat") auto

declare digitsOf.simps [simp del]

definition shortestCandidate :: "int \<Rightarrow> nat \<Rightarrow> int option" where
  \<comment> \<open>a multiple of \<open>10 ^ j\<close> next to the double \<open>x\<close> that reads back as \<open>x\<close>: the nearer one of
      the two, the one with the even digit string when they are equally near\<close>
  "shortestCandidate x j =
     (let p = 10 ^ j;
          lo = (x div p) * p;
          hi = lo + p;
          okLo = (roundToDouble lo = x);
          okHi = (roundToDouble hi = x)
      in if okLo \<and> okHi then
           Some (if x - lo < hi - x then lo
                 else if hi - x < x - lo then hi
                 else if even (x div p) then lo else hi)
         else if okLo then Some lo
         else if okHi then Some hi
         else None)"

definition shortestDecimal :: "int \<Rightarrow> int" where
  \<comment> \<open>the decimal with the fewest significant digits that reads back as the double \<open>x \<ge> 0\<close>\<close>
  "shortestDecimal x =
     (if x < 2 ^ 53 then x
      else (case firstSome (shortestCandidate x) (rev [0..<length (digitsOf x)]) of
              None \<Rightarrow> x
            | Some v \<Rightarrow> v))"

definition exponentForm :: "string \<Rightarrow> string" where
  \<comment> \<open>the digits of an integer from \<open>10 ^ 21\<close> on, as \<open>d.ddde+n\<close>\<close>
  "exponentForm ds =
     (case rev (dropWhile (\<lambda>c. c = CHR ''0'') (rev ds)) of
        [] \<Rightarrow> []
      | d # rest \<Rightarrow> d # (if rest = [] then [] else CHR ''.'' # rest))
     @ ''e+'' @ digitsOf (int (length ds) - 1)"

definition toString :: "jsnumber \<Rightarrow> string" where
  \<comment> \<open>the template literal \<open>`${n}`\<close>: Number::toString in radix 10\<close>
  "toString n =
     (case (case n of Num i \<Rightarrow> toNumber i | _ \<Rightarrow> n) of
        NaN \<Rightarrow> ''NaN''
      | Infinity \<Rightarrow> ''Infinity''
      | NegInfinity \<Rightarrow> ''-Infinity''
      | Num i \<Rightarrow>
          (let ds = digitsOf (shortestDecimal \<bar>i\<bar>);
               shown = (if length ds \<le> 21 then ds else exponentForm ds)
           in if i < 0 then CHR ''-'' # shown else shown))"

definition digitValue :: "int \<Rightarrow> char \<Rightarrow> int option" where
  "digitValue radix c =
     (let k = of_char c :: int;
          v = (if 48 \<le> k \<and> k \<le> 57 then Some (k - 48)
               else if 97 \<le> k \<and> k \<le> 122 then Some (k - 87)
               else if 65 \<le> k \<and> k \<le> 90 then Some (k - 55)
               else None)
      in case v of None \<Rightarrow> None | Some d \<Rightarrow> if d < radix then Some d else None)"

definition parseInt :: "string \<Rightarrow> jsnumber" where
  \<comment> \<open>\<open>Number.parseInt(s)\<close> with no radix argument\<close>
  "parseInt s =
     (let s1 = dropWhile isStrWhiteSpaceChar s;
          neg = (case s1 of [] \<Rightarrow> False | c # _ \<Rightarrow> c = CHR ''-'');
          s2 = (case s1 of [] \<Rightarrow> s1
                | c # r \<Rightarrow> if c = CHR ''+'' \<or> c = CHR ''-'' then r else s1);
          hex = (case s2 of a # b # _ \<Rightarrow> a = CHR ''0'' \<and> (b = CHR ''x'' \<or> b = CHR ''X'')
                 | _ \<Rightarrow> False);
          radix = (if hex then 16 else 10);
          s3 = (if hex then drop 2 s2 else s2);
          ds = takeWhile (\<lambda>c. digitValue radix c \<noteq> None) s3;
          v = foldl (\<lambda>a c. a * radix + (case digitValue radix c of None \<Rightarrow> 0 | Some d \<Rightarrow> d)) 0 ds
      in if ds = [] then NaN else toNumber (if neg then - v else v))"

subsection \<open>Data model\<close>

datatype PrState = Open | Closed | Merged | AllStates | NotOpen

text \<open>
  \<open>AllStates\<close> is \<open>PrState.All\<close>. The raw \<open>pullRequestStatus\<close> of the service is a string;
  \<open>PullRequestStatusEnum\<close> names two of its values.
\<close>

definition PullRequestStatusEnum_OPEN :: string where
  "PullRequestStatusEnum_OPEN = ''OPEN''"

definition PullRequestStatusEnum_CLOSED :: string where
  "PullRequestStatusEnum_CLOSED = ''CLOSED''"

datatype MergeStrategy = Auto | FastForward | MergeCommit | Rebase | Squash

record Pr =
  sourceBranch :: "string option"
  targetBranch :: "string option"
  state :: PrState
  number :: jsnumber
  title :: "string option"
  sha :: "string option"
  sourceRepo :: "string option"

record MergeMetadata =
  isMerged :: "bool option"

record PullRequestTarget =
  repositoryName :: "string option"
  sourceReference :: "string option"
  destinationReference :: "string option"
  mergeMetadata :: "MergeMetadata option"

text \<open>The raw record's \<open>title\<close> field is \<open>pullRequestTitle\<close> here (\<open>title\<close> is the field of \<open>Pr\<close>).\<close>

record PullRequest =
  pullRequestId :: "string option"
  pullRequestTitle :: "string option"
  pullRequestStatus :: "string option"
  revisionId :: "string option"
  pullRequestTargets :: "PullRequestTarget list option"

record PullRequestOutput =
  pullRequest :: "PullRequest option"

record ListPullRequestsOutput =
  pullRequestIds :: "string list option"

record Comment =
  commentId :: "string option"
  content :: "string option"

record CommentsForPullRequest =
  comments :: "Comment list option"

record GetCommentsForPullRequestOutput =
  commentsForPullRequestData :: "CommentsForPullRequest list option"

record PullRequestSourceReferenceUpdatedEventMetadata =
  beforeCommitId :: "string option"
  afterCommitId :: "string option"

record PullRequestEvent =
  pullRequestSourceReferenceUpdatedEventMetadata ::
    "PullRequestSourceReferenceUpdatedEventMetadata option"

record DescribePullRequestEventsOutput =
  pullRequestEvents :: "PullRequestEvent list option"

record Credentials =
  accessKeyId :: string
  secretAccessKey :: string
  sessionToken :: "string option"

record Config =
  repository :: "string option"
  defaultBranch :: "string option"
  region :: "string option"
  prList :: "Pr list option"
  credentials :: "Credentials option"
  userArn :: "string option"

record ProcessEnv =
  AWS_ACCESS_KEY_ID :: "string option"
  AWS_SECRET_ACCESS_KEY :: "string option"
  AWS_REGION :: "string option"
  AWS_SESSION_TOKEN :: "string option"

subsection \<open>The calls made on the remote service\<close>

datatype call =
    ListPullRequests "string option" "string option"
  | GetPr string
  | CreatePr string string string string "string option"
  | UpdatePrDescription string string
  | UpdatePrTitle string string
  | UpdatePrStatus string string
  | SquashMerge "string option" "string option" "string option" "string option"
  | FastForwardMerge "string option" "string option" "string option"
  | GetPrComments "string option" string
  | GetPrEvents string
  | CreatePrComment string "string option" string string string
  | UpdateComment string string
  | DeleteComment string
  | GetUserArn

record World =
  config :: Config
  calls :: "call list"

definition log :: "call \<Rightarrow> World \<Rightarrow> World" where
  "log c w = w\<lparr>calls := calls w @ [c]\<rparr>"

text \<open>
  The collaborators of index.ts whose code is elsewhere (codecommit-client, the IAM
  transport, util/sanitize, utils/pr-body) are parameters. Each client function answers
  from the calls made so far and its arguments, so the remote data may change between
  any two calls. \<open>client_getPr\<close> does not throw: getPr has no handler of its own and the
  tests expect \<open>null\<close> from it when the remote command is rejected.
\<close>

record Env =
  sanitize :: "string \<Rightarrow> string"
  smartTruncate :: "string \<Rightarrow> nat \<Rightarrow> string"
  getUserArn :: "call list \<Rightarrow> error + string"
  client_listPullRequests ::
    "call list \<Rightarrow> string option \<Rightarrow> string option \<Rightarrow> error + ListPullRequestsOutput option"
  client_getPr :: "call list \<Rightarrow> string \<Rightarrow> PullRequestOutput option"
  client_createPr ::
    "call list \<Rightarrow> string \<Rightarrow> string \<Rightarrow> string \<Rightarrow> string \<Rightarrow> string option \<Rightarrow> error + PullRequestOutput"
  client_updatePrDescription :: "call list \<Rightarrow> string \<Rightarrow> string \<Rightarrow> error + unit"
  client_updatePrTitle :: "call list \<Rightarrow> string \<Rightarrow> string \<Rightarrow> error + unit"
  client_updatePrStatus :: "call list \<Rightarrow> string \<Rightarrow> string \<Rightarrow> error + PullRequestOutput option"
  client_squashMerge ::
    "call list \<Rightarrow> string option \<Rightarrow> string option \<Rightarrow> string option \<Rightarrow> string option \<Rightarrow> error + unit"
  client_fastForwardMerge ::
    "call list \<Rightarrow> string option \<Rightarrow> string option \<Rightarrow> string option \<Rightarrow> error + unit"
  client_getPrComments ::
    "call list \<Rightarrow> string option \<Rightarrow> string \<Rightarrow> error + GetCommentsForPullRequestOutput option"
  client_getPrEvents :: "call list \<Rightarrow> string \<Rightarrow> error + DescribePullRequestEventsOutput option"
  client_createPrComment ::
    "call list \<Rightarrow> string \<Rightarrow> string option \<Rightarrow> string \<Rightarrow> string \<Rightarrow> string \<Rightarrow> error + unit"
  client_updateComment :: "call list \<Rightarrow> string \<Rightarrow> string \<Rightarrow> error + unit"
  client_deleteComment :: "call list \<Rightarrow> string \<Rightarrow> error + unit"

subsection \<open>getPr\<close>

definition firstTarget :: "PullRequest \<Rightarrow> error + PullRequestTarget" where
  \<comment> \<open>\<open>prInfo.pullRequestTargets![0]\<close> followed by a property read\<close>
  "firstTarget prInfo =
     (case pullRequestTargets prInfo of
        None \<Rightarrow> Inl TypeError
      | Some [] \<Rightarrow> Inl TypeError
      | Some (t # _) \<Rightarrow> Inr t)"

definition pullRequestOf :: "PullRequestOutput option \<Rightarrow> PullRequest option" where
  \<comment> \<open>\<open>prRes?.pullRequest\<close>\<close>
  "pullRequestOf prRes = (case prRes of None \<Rightarrow> None | Some r \<Rightarrow> pullRequest r)"

definition isMergedOf :: "PullRequestTarget \<Rightarrow> bool" where
  \<comment> \<open>\<open>target.mergeMetadata?.isMerged\<close> used as a condition\<close>
  "isMergedOf t =
     (case mergeMetadata t of None \<Rightarrow> False | Some m \<Rightarrow> isMerged m = Some True)"

definition getPr :: "Env \<Rightarrow> jsnumber \<Rightarrow> World \<Rightarrow> (error + Pr option) \<times> World" where
  "getPr env prNo w =
     (let prRes = client_getPr env (calls w) (toString prNo);
          w1 = log (GetPr (toString prNo)) w
      in case pullRequestOf prRes of
           None \<Rightarrow> (Inr None, w1)
         | Some prInfo \<Rightarrow>
             (case firstTarget prInfo of
                Inl e \<Rightarrow> (Inl e, w1)
              | Inr t \<Rightarrow>
                  (let prState =
                         (if isMergedOf t then Merged
                          else if pullRequestStatus prInfo = Some PullRequestStatusEnum_OPEN
                               then Open else Closed)
                   in (Inr (Some \<lparr>sourceBranch = sourceReference t,
                                  targetBranch = destinationReference t,
                                  state = prState,
                                  number = prNo,
                                  title = pullRequestTitle prInfo,
                                  sha = revisionId prInfo,
                                  sourceRepo = None\<rparr>), w1))))"

subsection \<open>getPrList and findPr\<close>

fun fetchPrs :: "Env \<Rightarrow> string list \<Rightarrow> Pr list \<Rightarrow> World \<Rightarrow> (error + Pr list) \<times> World" where
  "fetchPrs env [] fetchedPrs w = (Inr fetchedPrs, w)"
| "fetchPrs env (prId # prIds) fetchedPrs w =
     (let prRes = client_getPr env (calls w) prId;
          w1 = log (GetPr prId) w
      in case pullRequestOf prRes of
           None \<Rightarrow> fetchPrs env prIds fetchedPrs w1
         | Some prInfo \<Rightarrow>
             (case firstTarget prInfo of
                Inl e \<Rightarrow> (Inl e, w1)
              | Inr t \<Rightarrow>
                  fetchPrs env prIds
                    (fetchedPrs @
                      [\<lparr>sourceBranch = sourceReference t,
                        targetBranch = destinationReference t,
                        state = (if pullRequestStatus prInfo = Some PullRequestStatusEnum_OPEN
                                 then Open else Closed),
                        number = parseInt prId,
                        title = pullRequestTitle prInfo,
                        sha = None,
                        sourceRepo = None\<rparr>])
                    w1))"

definition storePrList :: "(error + Pr list) \<times> World \<Rightarrow> (error + Pr list) \<times> World" where
  \<comment> \<open>\<open>config.prList = fetchedPrs\<close> once the loop has run to its end\<close>
  "storePrList r =
     (case r of
        (Inl e, w) \<Rightarrow> (Inl e, w)
      | (Inr fetchedPrs, w) \<Rightarrow>
          (Inr fetchedPrs, w\<lparr>config := (config w)\<lparr>prList := Some fetchedPrs\<rparr>\<rparr>))"

definition getPrList :: "Env \<Rightarrow> World \<Rightarrow> (error + Pr list) \<times> World" where
  "getPrList env w =
     (case prList (config w) of
        Some prs \<Rightarrow> (Inr prs, w)
      | None \<Rightarrow>
          (let listPrsResponse =
                 client_listPullRequests env (calls w) (repository (config w)) (userArn (config w));
               w1 = log (ListPullRequests (repository (config w)) (userArn (config w))) w
           in case listPrsResponse of
                Inl e \<Rightarrow> (Inl e, w1)
              | Inr None \<Rightarrow> storePrList (fetchPrs env [] [] w1)
              | Inr (Some r) \<Rightarrow>
                  (case pullRequestIds r of
                     None \<Rightarrow> (Inr [], w1)
                   | Some prIds \<Rightarrow> storePrList (fetchPrs env prIds [] w1))))"

definition getNewBranchName :: "string \<Rightarrow> string" where
  \<comment> \<open>Modelled from the spec: \<open>getNewBranchName\<close> of platform/util is not among the sources;
      it prefixes the branch-ref namespace \<open>refs/heads/\<close> if not already present.\<close>
  "getNewBranchName branchName =
     (if take (length ''refs/heads/'') branchName = ''refs/heads/'' then branchName
      else ''refs/heads/'' @ branchName)"

definition findPr ::
  "Env \<Rightarrow> string \<Rightarrow> string option \<Rightarrow> PrState option \<Rightarrow> World \<Rightarrow> Pr option \<times> World" where
  "findPr env branchName prTitle reqState w =
     (case getPrList env w of
        (Inl err, w1) \<Rightarrow> (None, w1)
      | (Inr prs, w1) \<Rightarrow>
          (let refsHeadBranchName = getNewBranchName branchName;
               byBranch = filter (\<lambda>item. sourceBranch item = Some refsHeadBranchName) prs;
               byTitle = (if truthy prTitle then filter (\<lambda>item. title item = prTitle) byBranch
                          else byBranch);
               prsFiltered =
                 (case (case reqState of None \<Rightarrow> AllStates | Some s \<Rightarrow> s) of
                    AllStates \<Rightarrow> byTitle
                  | NotOpen \<Rightarrow> filter (\<lambda>item. state item \<noteq> Open) byTitle
                  | _ \<Rightarrow> filter (\<lambda>item. state item = Open) byTitle)
           in (case prsFiltered of [] \<Rightarrow> None | pr # _ \<Rightarrow> Some pr, w1)))"

subsection \<open>createPr, updatePr and mergePr\<close>

definition createPr ::
  "Env \<Rightarrow> string \<Rightarrow> string \<Rightarrow> string \<Rightarrow> string \<Rightarrow> World \<Rightarrow> (error + Pr) \<times> World" where
  "createPr env srcBranch tgtBranch prTitle prBody w =
     (let description = smartTruncate env (sanitize env prBody) 10239;
          prCreateRes =
            client_createPr env (calls w) prTitle (sanitize env description) srcBranch tgtBranch
              (repository (config w));
          w1 = log (CreatePr prTitle (sanitize env description) srcBranch tgtBranch
                      (repository (config w))) w
      in case prCreateRes of
           Inl e \<Rightarrow> (Inl e, w1)
         | Inr res \<Rightarrow>
             (case pullRequest res of
                None \<Rightarrow> (Inl (Error ''Could not create pr, missing PR info''), w1)
              | Some p \<Rightarrow>
                  (case pullRequestId p of
                     None \<Rightarrow> (Inl (Error ''Could not create pr, missing PR info''), w1)
                   | Some newId \<Rightarrow>
                       if \<not> truthy (pullRequestTitle p) \<or> newId = []
                       then (Inl (Error ''Could not create pr, missing PR info''), w1)
                       else (Inr \<lparr>sourceBranch = Some srcBranch,
                                  targetBranch = Some tgtBranch,
                                  state = Open,
                                  number = parseInt newId,
                                  title = pullRequestTitle p,
                                  sha = None,
                                  sourceRepo = repository (config w)\<rparr>, w1))))"

definition updatePr ::
  "Env \<Rightarrow> jsnumber \<Rightarrow> string option \<Rightarrow> string option \<Rightarrow> PrState option \<Rightarrow> World
     \<Rightarrow> (error + unit) \<times> World" where
  "updatePr env prNo prTitle prBody reqState w =
     (let r1 = (case prBody of
                  None \<Rightarrow> (Inr (), w)
                | Some body \<Rightarrow>
                    if body = [] then (Inr (), w)
                    else (client_updatePrDescription env (calls w) (toString prNo)
                            (smartTruncate env (sanitize env body) 10239),
                          log (UpdatePrDescription (toString prNo)
                                 (smartTruncate env (sanitize env body) 10239)) w))
      in case r1 of
           (Inl e, w1) \<Rightarrow> (Inl e, w1)
         | (Inr _, w1) \<Rightarrow>
             (let r2 = (case prTitle of
                          None \<Rightarrow> (Inr (), w1)
                        | Some newTitle \<Rightarrow>
                            if newTitle = [] then (Inr (), w1)
                            else (client_updatePrTitle env (calls w1) (toString prNo) newTitle,
                                  log (UpdatePrTitle (toString prNo) newTitle) w1))
              in case r2 of
                   (Inl e, w2) \<Rightarrow> (Inl e, w2)
                 | (Inr _, w2) \<Rightarrow>
                     (let prStatusInput =
                            (if reqState = Some Closed then PullRequestStatusEnum_CLOSED
                             else PullRequestStatusEnum_OPEN);
                          r3 = client_updatePrStatus env (calls w2) (toString prNo) prStatusInput;
                          w3 = log (UpdatePrStatus (toString prNo) prStatusInput) w2
                      in (Inr (), w3))))"

definition mergeStep ::
  "Env \<Rightarrow> MergeStrategy option \<Rightarrow> PullRequest option \<Rightarrow> PullRequestTarget list \<Rightarrow> World
     \<Rightarrow> (error + bool) \<times> World" where
  \<comment> \<open>the body of the first \<open>try\<close> of mergePr: \<open>Inr False\<close> is its \<open>return false\<close>\<close>
  "mergeStep env strategy pReq targets w =
     (if strategy = Some Auto \<or> strategy = Some Squash then
        (case targets of
           [] \<Rightarrow> (Inl TypeError, w)
         | t # _ \<Rightarrow>
             (let prTitle = (case pReq of None \<Rightarrow> None | Some p \<Rightarrow> pullRequestTitle p);
                  r = client_squashMerge env (calls w) (repositoryName t) (sourceReference t)
                        (destinationReference t) prTitle;
                  w1 = log (SquashMerge (repositoryName t) (sourceReference t)
                              (destinationReference t) prTitle) w
              in case r of Inl e \<Rightarrow> (Inl e, w1) | Inr _ \<Rightarrow> (Inr True, w1)))
      else if strategy = Some FastForward then
        (case targets of
           [] \<Rightarrow> (Inl TypeError, w)
         | t # _ \<Rightarrow>
             (let r = client_fastForwardMerge env (calls w) (repositoryName t) (sourceReference t)
                        (destinationReference t);
                  w1 = log (FastForwardMerge (repositoryName t) (sourceReference t)
                              (destinationReference t)) w
              in case r of Inl e \<Rightarrow> (Inl e, w1) | Inr _ \<Rightarrow> (Inr True, w1)))
      else (Inr False, w))"

definition mergePr ::
  "Env \<Rightarrow> string option \<Rightarrow> jsnumber \<Rightarrow> MergeStrategy option \<Rightarrow> World \<Rightarrow> (error + bool) \<times> World" where
  "mergePr env branchName prNo strategy w =
     (let prOut = client_getPr env (calls w) (toString prNo);
          w1 = log (GetPr (toString prNo)) w
      in case prOut of
           None \<Rightarrow> (Inr False, w1)
         | Some out \<Rightarrow>
             (let pReq = pullRequest out
              in case (case pReq of None \<Rightarrow> None | Some p \<Rightarrow> pullRequestTargets p) of
                   None \<Rightarrow> (Inr False, w1)
                 | Some targets \<Rightarrow>
                     if strategy = Some Rebase then (Inr False, w1)
                     else
                       (case mergeStep env strategy pReq targets w1 of
                          (Inl err, w2) \<Rightarrow> (Inr False, w2)
                        | (Inr False, w2) \<Rightarrow> (Inr False, w2)
                        | (Inr True, w2) \<Rightarrow>
                            (let response =
                                   client_updatePrStatus env (calls w2) (toString prNo)
                                     PullRequestStatusEnum_CLOSED;
                                 w3 = log (UpdatePrStatus (toString prNo)
                                             PullRequestStatusEnum_CLOSED) w2
                             in case response of
                                  Inl err \<Rightarrow> (Inr False, w3)
                                | Inr None \<Rightarrow> (Inr False, w3)
                                | Inr (Some _) \<Rightarrow> (Inr True, w3)))))"

subsection \<open>ensureComment and ensureCommentRemoval\<close>

definition threadSelected :: "bool \<Rightarrow> string \<Rightarrow> string \<Rightarrow> string option \<Rightarrow> bool" where
  \<comment> \<open>the condition of the loop of ensureComment on a thread's first comment\<close>
  "threadSelected hasTopic header body firstCommentContent =
     ((hasTopic \<and> startsWith firstCommentContent header)
      \<or> (\<not> hasTopic \<and> firstCommentContent = Some body))"

fun scanThreads ::
  "bool \<Rightarrow> string \<Rightarrow> string \<Rightarrow> CommentsForPullRequest list \<Rightarrow> error + (string option \<times> bool)" where
  \<comment> \<open>the loop of ensureComment; the result is \<open>(commentId, commentNeedsUpdating)\<close>\<close>
  "scanThreads hasTopic header body [] = Inr (None, False)"
| "scanThreads hasTopic header body (commentObj # rest) =
     (case comments commentObj of
        None \<Rightarrow> scanThreads hasTopic header body rest
      | Some [] \<Rightarrow> Inl TypeError
      | Some (c # _) \<Rightarrow>
          (let firstCommentContent = content c
           in if threadSelected hasTopic header body firstCommentContent
              then Inr (commentId c, firstCommentContent \<noteq> Some body)
              else scanThreads hasTopic header body rest))"

definition createComment :: "Env \<Rightarrow> jsnumber \<Rightarrow> string \<Rightarrow> World \<Rightarrow> (error + bool) \<times> World" where
  \<comment> \<open>the branch \<open>if (!commentId)\<close> of ensureComment\<close>
  "createComment env prNo body w =
     (let prEvent = client_getPrEvents env (calls w) (toString prNo);
          w1 = log (GetPrEvents (toString prNo)) w
      in case prEvent of
           Inl e \<Rightarrow> (Inl e, w1)
         | Inr None \<Rightarrow> (Inr False, w1)
         | Inr (Some ev) \<Rightarrow>
             (case pullRequestEvents ev of
                None \<Rightarrow> (Inr False, w1)
              | Some [] \<Rightarrow> (Inl TypeError, w1)
              | Some (e0 # _) \<Rightarrow>
                  (case pullRequestSourceReferenceUpdatedEventMetadata e0 of
                     None \<Rightarrow> (Inr False, w1)
                   | Some event \<Rightarrow>
                       (case (beforeCommitId event, afterCommitId event) of
                          (Some before, Some after) \<Rightarrow>
                            if before = [] \<or> after = [] then (Inr False, w1)
                            else
                              (let r = client_createPrComment env (calls w1) (toString prNo)
                                         (repository (config w1)) body before after;
                                   w2 = log (CreatePrComment (toString prNo)
                                               (repository (config w1)) body before after) w1
                               in case r of Inl e \<Rightarrow> (Inl e, w2) | Inr _ \<Rightarrow> (Inr True, w2))
                        | _ \<Rightarrow> (Inr False, w1)))))"

definition commentHeader :: "string option \<Rightarrow> string" where
  \<comment> \<open>\<open>topic ? `### ${topic}\n\n` : ''\<close>\<close>
  "commentHeader topic =
     (case topic of None \<Rightarrow> []
      | Some t \<Rightarrow> if t = [] then [] else ''### '' @ t @ [CHR 0x0A, CHR 0x0A])"

definition ensureComment ::
  "Env \<Rightarrow> jsnumber \<Rightarrow> string option \<Rightarrow> string \<Rightarrow> World \<Rightarrow> (error + bool) \<times> World" where
  "ensureComment env prNo topic commentContent w =
     (let header = commentHeader topic;
          body = header @ sanitize env commentContent;
          prCommentsResponse =
            client_getPrComments env (calls w) (repository (config w)) (toString prNo);
          w1 = log (GetPrComments (repository (config w)) (toString prNo)) w
      in case prCommentsResponse of
           Inl err \<Rightarrow> (Inr False, w1)
         | Inr None \<Rightarrow> (Inr False, w1)
         | Inr (Some res) \<Rightarrow>
             (case commentsForPullRequestData res of
                None \<Rightarrow> (Inr False, w1)
              | Some threads \<Rightarrow>
                  (case scanThreads (truthy topic) header body threads of
                     Inl e \<Rightarrow> (Inl e, w1)
                   | Inr (cid, commentNeedsUpdating) \<Rightarrow>
                       if \<not> truthy cid then createComment env prNo body w1
                       else if commentNeedsUpdating then
                         (case cid of
                            None \<Rightarrow> (Inr True, w1)
                          | Some i \<Rightarrow>
                              (let r = client_updateComment env (calls w1) i body;
                                   w2 = log (UpdateComment i body) w1
                               in case r of Inl e \<Rightarrow> (Inl e, w2) | Inr _ \<Rightarrow> (Inr True, w2)))
                       else (Inr True, w1))))"

datatype EnsureCommentRemovalConfig =
    ByTopic jsnumber string
  | ByContent jsnumber string

definition removalNumber :: "EnsureCommentRemovalConfig \<Rightarrow> jsnumber" where
  "removalNumber removeConfig = (case removeConfig of ByTopic n _ \<Rightarrow> n | ByContent n _ \<Rightarrow> n)"

definition commentMatches :: "EnsureCommentRemovalConfig \<Rightarrow> Comment \<Rightarrow> bool" where
  \<comment> \<open>the condition of the inner loop of ensureCommentRemoval\<close>
  "commentMatches removeConfig c =
     (case removeConfig of
        ByTopic _ topic \<Rightarrow> startsWith (content c) (''### '' @ topic @ [CHR 0x0A, CHR 0x0A])
      | ByContent _ target \<Rightarrow>
          (case content c of None \<Rightarrow> False | Some s \<Rightarrow> target = trim s))"

fun firstMatchId :: "EnsureCommentRemovalConfig \<Rightarrow> Comment list \<Rightarrow> string option" where
  \<comment> \<open>the inner loop: the \<open>commentId\<close> of the first matching comment of a thread\<close>
  "firstMatchId removeConfig [] = None"
| "firstMatchId removeConfig (c # cs) =
     (if commentMatches removeConfig c then commentId c else firstMatchId removeConfig cs)"

fun removeScan ::
  "Env \<Rightarrow> EnsureCommentRemovalConfig \<Rightarrow> CommentsForPullRequest list \<Rightarrow> World
     \<Rightarrow> (error + unit) \<times> World" where
  "removeScan env removeConfig [] w = (Inr (), w)"
| "removeScan env removeConfig (commentObj # rest) w =
     (case comments commentObj of
        None \<Rightarrow> removeScan env removeConfig rest w
      | Some cs \<Rightarrow>
          (let commentIdToRemove = firstMatchId removeConfig cs
           in if truthy commentIdToRemove then
                (case commentIdToRemove of
                   None \<Rightarrow> (Inr (), w)
                 | Some i \<Rightarrow>
                     (let r = client_deleteComment env (calls w) i;
                          w1 = log (DeleteComment i) w
                      in case r of Inl e \<Rightarrow> (Inl e, w1) | Inr _ \<Rightarrow> (Inr (), w1)))
              else removeScan env removeConfig rest w))"

definition ensureCommentRemoval ::
  "Env \<Rightarrow> EnsureCommentRemovalConfig \<Rightarrow> World \<Rightarrow> (error + unit) \<times> World" where
  "ensureCommentRemoval env removeConfig w =
     (let prNo = removalNumber removeConfig;
          prCommentsResponse =
            client_getPrComments env (calls w) (repository (config w)) (toString prNo);
          w1 = log (GetPrComments (repository (config w)) (toString prNo)) w
      in case prCommentsResponse of
           Inl err \<Rightarrow> (Inr (), w1)
         | Inr None \<Rightarrow> (Inr (), w1)
         | Inr (Some res) \<Rightarrow>
             (case commentsForPullRequestData res of
                None \<Rightarrow> (Inr (), w1)
              | Some threads \<Rightarrow> removeScan env removeConfig threads w1))"

subsection \<open>initPlatform\<close>

definition isLineTerminator :: "char \<Rightarrow> bool" where
  "isLineTerminator c = (c = CHR 0x0A \<or> c = CHR 0x0D)"

definition dotRun :: "string \<Rightarrow> nat" where
  \<comment> \<open>how many characters a greedy \<open>.*\<close> can take at the start of \<open>s\<close>\<close>
  "dotRun s = length (takeWhile (\<lambda>c. \<not> isLineTerminator c) s)"

definition matchRegionTail :: "string \<Rightarrow> string option" where
  \<comment> \<open>\<open>(?<region>.+)\.amazonaws\.com\<close> at the start of \<open>s\<close>, longest group first\<close>
  "matchRegionTail s =
     firstSome
       (\<lambda>m. if take (length ''.amazonaws.com'') (drop m s) = ''.amazonaws.com''
            then Some (take m s) else None)
       (rev [1..<Suc (dotRun s)])"

definition matchFromStart :: "string \<Rightarrow> string option" where
  \<comment> \<open>\<open>.*codecommit\.(?<region>.+)\.amazonaws\.com\<close> at the start of \<open>s\<close>, longest \<open>.*\<close> first\<close>
  "matchFromStart s =
     firstSome
       (\<lambda>k. if take (length ''codecommit.'') (drop k s) = ''codecommit.''
            then matchRegionTail (drop (k + length ''codecommit.'') s) else None)
       (rev [0..<Suc (dotRun s)])"

definition regionReg_exec :: "string \<Rightarrow> string option" where
  \<comment> \<open>\<open>regionReg.exec(endpoint)?.groups?.region\<close>: the leftmost match\<close>
  "regionReg_exec s = firstSome (\<lambda>i. matchFromStart (drop i s)) [0..<Suc (length s)]"

record PlatformResult =
  endpoint :: string

definition initPlatform ::
  "Env \<Rightarrow> ProcessEnv \<Rightarrow> string option \<Rightarrow> string option \<Rightarrow> string option \<Rightarrow> World
     \<Rightarrow> (error + PlatformResult) \<times> World" where
  "initPlatform env penv ep username password w =
     (let keyId = (if \<not> truthy username then AWS_ACCESS_KEY_ID penv else username);
          secret = (if \<not> truthy password then AWS_SECRET_ACCESS_KEY penv else password);
          parsedRegion = (case ep of
                            None \<Rightarrow> AWS_REGION penv
                          | Some e \<Rightarrow> if e = [] then AWS_REGION penv else regionReg_exec e)
      in case (keyId, secret, parsedRegion) of
           (Some k, Some s, Some r) \<Rightarrow>
             if k = [] \<or> s = [] \<or> r = [] then
               (Inl (Error ''Init: You must configure a AWS user(accessKeyId), password(secretAccessKey) and endpoint/AWS_REGION''), w)
             else
               (let w1 = w\<lparr>config := (config w)
                              \<lparr>region := Some r,
                               credentials := Some \<lparr>accessKeyId = k, secretAccessKey = s,
                                                    sessionToken = AWS_SESSION_TOKEN penv\<rparr>\<rparr>\<rparr>;
                    arn = getUserArn env (calls w1);
                    w2 = log GetUserArn w1
                in case arn of
                     Inl e \<Rightarrow> (Inl e, w2)
                   | Inr a \<Rightarrow>
                       (Inr \<lparr>endpoint = (case ep of
                                           None \<Rightarrow> ''https://git-codecommit.'' @ r @ ''.amazonaws.com/''
                                         | Some e \<Rightarrow> e)\<rparr>,
                        w2\<lparr>config := (config w2)\<lparr>userArn := Some a\<rparr>\<rparr>))
         | _ \<Rightarrow>
             (Inl (Error ''Init: You must configure a AWS user(accessKeyId), password(secretAccessKey) and endpoint/AWS_REGION''), w))"

subsection \<open>Sessions\<close>

text \<open>
  A session is a sequence of operations run one after the other on the same \<open>World\<close>;
  \<open>newCalls\<close> are the remote calls an operation added to the log.
\<close>

datatype Operation =
    CreatePrOp string string string string
  | UpdatePrOp jsnumber "string option" "string option" "PrState option"
  | MergePrOp "string option" jsnumber "MergeStrategy option"
  | EnsureCommentOp jsnumber "string option" string
  | EnsureCommentRemovalOp EnsureCommentRemovalConfig
  | GetPrOp jsnumber
  | GetPrListOp
  | FindPrOp string "string option" "PrState option"

fun runOperation :: "Env \<Rightarrow> Operation \<Rightarrow> World \<Rightarrow> World" where
  "runOperation env (CreatePrOp srcBranch tgtBranch prTitle prBody) w =
     snd (createPr env srcBranch tgtBranch prTitle prBody w)"
| "runOperation env (UpdatePrOp prNo prTitle prBody reqState) w =
     snd (updatePr env prNo prTitle prBody reqState w)"
| "runOperation env (MergePrOp branchName prNo strategy) w =
     snd (mergePr env branchName prNo strategy w)"
| "runOperation env (EnsureCommentOp prNo topic commentContent) w =
     snd (ensureComment env prNo topic commentContent w)"
| "runOperation env (EnsureCommentRemovalOp removeConfig) w =
     snd (ensureCommentRemoval env removeConfig w)"
| "runOperation env (GetPrOp prNo) w = snd (getPr env prNo w)"
| "runOperation env GetPrListOp w = snd (getPrList env w)"
| "runOperation env (FindPrOp branchName prTitle reqState) w =
     snd (findPr env branchName prTitle reqState w)"

fun runOperations :: "Env \<Rightarrow> Operation list \<Rightarrow> World \<Rightarrow> World" where
  "runOperations env [] w = w"
| "runOperations env (op # ops) w = runOperations env ops (runOperation env op w)"

definition newCalls :: "World \<Rightarrow> World \<Rightarrow> call list" where
  "newCalls w w' = drop (length (calls w)) (calls w')"

definition listingWithoutIds :: "Env \<Rightarrow> World \<Rightarrow> bool" where
  \<comment> \<open>getPrList on an empty cache gets a listing response with no \<open>pullRequestIds\<close>\<close>
  "listingWithoutIds env w =
     (case prList (config w) of
        Some _ \<Rightarrow> False
      | None \<Rightarrow>
          (case client_listPullRequests env (calls w) (repository (config w))
                  (userArn (config w)) of
             Inr (Some r) \<Rightarrow> pullRequestIds r = None
           | _ \<Rightarrow> False))"


definition noCommentMatches :: "EnsureCommentRemovalConfig \<Rightarrow> CommentsForPullRequest \<Rightarrow> bool" where
  "noCommentMatches removeConfig t =
     (case comments t of
        None \<Rightarrow> True
      | Some cs \<Rightarrow> list_all (\<lambda>c. \<not> commentMatches removeConfig c) cs)"

fun commentBodyOf :: "call \<Rightarrow> string option" where
  "commentBodyOf (CreatePrComment _ _ body _ _) = Some body"
| "commentBodyOf (UpdateComment _ body) = Some body"
| "commentBodyOf _ = None"

fun isMergeCall :: "call \<Rightarrow> bool" where
  "isMergeCall (SquashMerge _ _ _ _) = True"
| "isMergeCall (FastForwardMerge _ _ _) = True"
| "isMergeCall _ = False"



fun isUpdatePrStatus :: "call \<Rightarrow> bool" where
  "isUpdatePrStatus (UpdatePrStatus _ _) = True"
| "isUpdatePrStatus _ = False"

subsection \<open>Concrete inputs\<close>

definition emptyConfig :: Config where
  "emptyConfig =
     \<lparr>repository = None, defaultBranch = None, region = None, prList = None,
      credentials = None, userArn = None\<rparr>"

definition world0 :: World where
  "world0 = \<lparr>config = emptyConfig, calls = []\<rparr>"

definition target0 :: PullRequestTarget where
  "target0 =
     \<lparr>repositoryName = None,
      sourceReference = Some ''refs/heads/sourceBranch'',
      destinationReference = Some ''refs/heads/targetBranch'',
      mergeMetadata = None\<rparr>"

definition mergedTarget :: PullRequestTarget where
  "mergedTarget = target0\<lparr>mergeMetadata := Some \<lparr>isMerged = Some True\<rparr>\<rparr>"

definition openPr :: PullRequest where
  "openPr =
     \<lparr>pullRequestId = None,
      pullRequestTitle = Some ''someTitle'',
      pullRequestStatus = Some ''OPEN'',
      revisionId = None,
      pullRequestTargets = Some [target0]\<rparr>"

definition closedPr :: PullRequest where
  "closedPr = openPr\<lparr>pullRequestStatus := Some ''CLOSED''\<rparr>"

definition mergedPr :: PullRequest where
  "mergedPr = closedPr\<lparr>pullRequestTargets := Some [mergedTarget]\<rparr>"

definition comment0 :: Comment where
  "comment0 = \<lparr>commentId = Some ''1'', content = Some ''my comment content''\<rparr>"

definition thread0 :: CommentsForPullRequest where
  "thread0 = \<lparr>comments = Some [comment0]\<rparr>"

definition events0 :: DescribePullRequestEventsOutput where
  "events0 =
     \<lparr>pullRequestEvents =
        Some [\<lparr>pullRequestSourceReferenceUpdatedEventMetadata =
                 Some \<lparr>beforeCommitId = Some ''beforeCid'', afterCommitId = Some ''afterCid''\<rparr>\<rparr>]\<rparr>"

definition testEnv :: Env where
  "testEnv =
     \<lparr>sanitize = (\<lambda>s. s),
      smartTruncate = (\<lambda>s n. take n s),
      getUserArn = (\<lambda>h. Inr ''aws:arn:example:123456''),
      client_listPullRequests = (\<lambda>h repo arn. Inr (Some \<lparr>pullRequestIds = Some [''1'']\<rparr>)),
      client_getPr = (\<lambda>h i. Some \<lparr>pullRequest = Some openPr\<rparr>),
      client_createPr =
        (\<lambda>h t d s g r. Inr \<lparr>pullRequest = Some (openPr\<lparr>pullRequestId := Some ''1''\<rparr>)\<rparr>),
      client_updatePrDescription = (\<lambda>h i d. Inr ()),
      client_updatePrTitle = (\<lambda>h i t. Inr ()),
      client_updatePrStatus = (\<lambda>h i s. Inr (Some \<lparr>pullRequest = Some openPr\<rparr>)),
      client_squashMerge = (\<lambda>h a b c d. Inr ()),
      client_fastForwardMerge = (\<lambda>h a b c. Inr ()),
      client_getPrComments =
        (\<lambda>h r i. Inr (Some \<lparr>commentsForPullRequestData = Some [thread0]\<rparr>)),
      client_getPrEvents = (\<lambda>h i. Inr (Some events0)),
      client_createPrComment = (\<lambda>h i r b x y. Inr ()),
      client_updateComment = (\<lambda>h i b. Inr ()),
      client_deleteComment = (\<lambda>h i. Inr ())\<rparr>"

definition mergedEnv :: Env where
  \<comment> \<open>every pull request is merged, with raw status \<open>CLOSED\<close>\<close>
  "mergedEnv = testEnv\<lparr>client_getPr := (\<lambda>h i. Some \<lparr>pullRequest = Some mergedPr\<rparr>)\<rparr>"

definition twoPrEnv :: Env where
  \<comment> \<open>pull request 1 is closed, pull request 2 is open, both from \<open>sourceBranch\<close>\<close>
  "twoPrEnv =
     testEnv\<lparr>client_listPullRequests :=
               (\<lambda>h repo arn. Inr (Some \<lparr>pullRequestIds = Some [''1'', ''2'']\<rparr>)),
             client_getPr :=
               (\<lambda>h i. Some \<lparr>pullRequest = Some (if i = ''1'' then closedPr else openPr)\<rparr>)\<rparr>"

definition lateIdsEnv :: Env where
  \<comment> \<open>the first listing response has no \<open>pullRequestIds\<close>, the later ones list pull request 1\<close>
  "lateIdsEnv =
     testEnv\<lparr>client_listPullRequests :=
               (\<lambda>h repo arn. if h = [] then Inr (Some \<lparr>pullRequestIds = None\<rparr>)
                              else Inr (Some \<lparr>pullRequestIds = Some [''1'']\<rparr>))\<rparr>"


definition regionEnv :: ProcessEnv where
  "regionEnv =
     \<lparr>AWS_ACCESS_KEY_ID = None, AWS_SECRET_ACCESS_KEY = None, AWS_REGION = Some ''REGION'',
      AWS_SESSION_TOKEN = None\<rparr>"

definition listedPr :: Pr where
  "listedPr =
     \<lparr>sourceBranch = Some ''refs/heads/sourceBranch'',
      targetBranch = Some ''refs/heads/targetBranch'',
      state = Open, number = Num 1, title = Some ''someTitle'',
      sha = None, sourceRepo = None\<rparr>"

definition cachedWorld :: World where
  \<comment> \<open>the world after a first getPrList on \<open>testEnv\<close>\<close>
  "cachedWorld =
     \<lparr>config = emptyConfig\<lparr>prList := Some [listedPr]\<rparr>,
      calls = [ListPullRequests None None, GetPr ''1'']\<rparr>"

definition someOperations :: "Operation list" where
  "someOperations =
     [CreatePrOp ''sourceBranch'' ''targetBranch'' ''mytitle'' ''mybody'',
      UpdatePrOp (Num 1) (Some ''title'') (Some ''body'') (Some Closed),
      MergePrOp (Some ''branch'') (Num 1) (Some Squash),
      EnsureCommentOp (Num 1) (Some ''some-subject'') ''some content'',
      EnsureCommentRemovalOp (ByTopic (Num 1) ''some-subject'')]"

definition subjectHeader :: string where
  "subjectHeader = ''### some-subject'' @ [CHR 0x0A, CHR 0x0A]"




definition longContent :: string where
  "longContent = replicate 10240 CHR ''a''"

definition noThreadsEnv :: Env where
  "noThreadsEnv =
     testEnv\<lparr>client_getPrComments :=
       (\<lambda>h r i. Inr (Some \<lparr>commentsForPullRequestData = Some []\<rparr>))\<rparr>"

definition replyEnv :: Env where
  \<comment> \<open>one thread whose root does not match and whose reply starts with the topic header\<close>
  "replyEnv =
     testEnv\<lparr>client_getPrComments :=
       (\<lambda>h r i. Inr (Some \<lparr>commentsForPullRequestData = Some
          [\<lparr>comments = Some [\<lparr>commentId = Some ''1'', content = Some ''root comment''\<rparr>,
                             \<lparr>commentId = Some ''2'',
                              content = Some (subjectHeader @ ''a reply'')\<rparr>]\<rparr>]\<rparr>))\<rparr>"


definition noEnv :: ProcessEnv where
  "noEnv =
     \<lparr>AWS_ACCESS_KEY_ID = None, AWS_SECRET_ACCESS_KEY = None, AWS_REGION = None,
      AWS_SESSION_TOKEN = None\<rparr>"

definition noTargetPr :: PullRequest where
  \<comment> \<open>an open pull request whose record carries no \<open>pullRequestTargets\<close>\<close>
  "noTargetPr = openPr\<lparr>pullRequestTargets := None\<rparr>"

definition noTargetEnv :: Env where
  "noTargetEnv = testEnv\<lparr>client_getPr := (\<lambda>h i. Some \<lparr>pullRequest = Some noTargetPr\<rparr>)\<rparr>"

section \<open>Properties\<close>

subsection \<open>Evaluation of the conversions\<close>

lemma parseInt_1: "parseInt ''1'' = Num 1"
  by code_simp

lemma parseInt_2: "parseInt ''2'' = Num 2"
  by code_simp

lemma toString_1: "toString (Num 1) = ''1''"
  by code_simp

lemma toString_42: "toString (Num 42) = ''42''"
  by code_simp

lemma toString_exponent: "toString (Num 1000000000000000000000) = ''1e+21''"
  by code_simp

lemma toString_shortest: "toString (Num 1152921504606846976) = ''1152921504606847000''"
  by code_simp

lemma parseInt_rounds: "parseInt ''9007199254740993'' = Num 9007199254740992"
  by code_simp

lemma parseInt_prefix: "parseInt ''12px'' = Num 12"
  by code_simp

lemma regionReg_exec_region:
  "regionReg_exec ''https://git-codecommit.eu-central-1.amazonaws.com/'' = Some ''eu-central-1''"
  by code_simp

lemma regionReg_exec_endpoint: "regionReg_exec ''endpoint'' = None"
  by code_simp

subsection \<open>Scenarios of index.spec.ts on the model\<close>

lemma regionReg_exec_REGION:
  "regionReg_exec ''https://git-codecommit.REGION.amazonaws.com/'' = Some ''REGION''"
  by code_simp

lemma spec_should_init:
  "fst (initPlatform testEnv noEnv (Some ''https://git-codecommit.REGION.amazonaws.com/'')
          (Some ''abc'') (Some ''123'') world0) =
     Inr \<lparr>endpoint = ''https://git-codecommit.REGION.amazonaws.com/''\<rparr>"
  by (simp add: initPlatform_def regionReg_exec_REGION truthy_def testEnv_def Let_def)

lemma spec_should_throw_if_no_username_password:
  "fst (initPlatform testEnv noEnv None None None world0) =
     Inl (Error ''Init: You must configure a AWS user(accessKeyId), password(secretAccessKey) and endpoint/AWS_REGION'')"
  by (simp add: initPlatform_def truthy_def noEnv_def Let_def)

lemma spec_gets_pr:
  "fst (getPr testEnv (Num 1) world0) = Inr (Some listedPr)"
  by (simp add: getPr_def testEnv_def world0_def log_def pullRequestOf_def firstTarget_def
      isMergedOf_def Let_def openPr_def target0_def listedPr_def PullRequestStatusEnum_OPEN_def)

lemma spec_finds_pr:
  "fst (findPr testEnv ''sourceBranch'' (Some ''someTitle'') (Some Open) world0) = Some listedPr"
  by (simp add: findPr_def getPrList_def testEnv_def world0_def emptyConfig_def
      log_def storePrList_def pullRequestOf_def firstTarget_def Let_def getNewBranchName_def
      openPr_def target0_def parseInt_1 truthy_def listedPr_def PullRequestStatusEnum_OPEN_def)

lemma spec_posts_merge_with_auto:
  "mergePr testEnv (Some ''branch'') (Num 1) (Some Auto) world0 =
     (Inr True,
      \<lparr>config = emptyConfig,
       calls = [GetPr ''1'',
                SquashMerge None (Some ''refs/heads/sourceBranch'')
                  (Some ''refs/heads/targetBranch'') (Some ''someTitle''),
                UpdatePrStatus ''1'' ''CLOSED'']\<rparr>)"
  by (simp add: mergePr_def mergeStep_def testEnv_def world0_def log_def Let_def openPr_def
      target0_def toString_1 PullRequestStatusEnum_CLOSED_def)

lemma ensureCommentRemoval_no_match:
  "ensureCommentRemoval replyEnv (ByTopic (Num 42) ''other-subject'') world0 =
     (Inr (), \<lparr>config = emptyConfig, calls = [GetPrComments None ''42'']\<rparr>)"
  by (simp add: ensureCommentRemoval_def replyEnv_def testEnv_def world0_def removalNumber_def
        emptyConfig_def log_def truthy_def commentMatches_def startsWith_def
        subjectHeader_def toString_42 Let_def)

subsection \<open>The cache slot\<close>

lemma getPrList_cached: "prList (config w) = Some prs \<Longrightarrow> getPrList env w = (Inr prs, w)"
  by (simp add: getPrList_def)

lemma fetchPrs_config: "fetchPrs env prIds acc w = (r, w') \<Longrightarrow> config w' = config w"
proof (induction prIds arbitrary: acc w)
  case Nil
  then show ?case by simp
next
  case (Cons prId prIds)
  then show ?case
    by (auto simp: Let_def log_def split: option.splits sum.splits)
qed

lemma getPrList_populates:
  assumes "getPrList env w = (Inr prs, w1)" and "\<not> listingWithoutIds env w"
  shows "prList (config w1) = Some prs"
proof (cases "prList (config w)")
  case (Some xs)
  with assms show ?thesis by (simp add: getPrList_def)
next
  case None
  have st: "storePrList x = (Inr prs, w1) \<Longrightarrow> prList (config w1) = Some prs" for x
    by (auto simp: storePrList_def split: prod.splits sum.splits)
  from assms None show ?thesis
    by (auto simp: getPrList_def listingWithoutIds_def Let_def dest: st
        split: sum.splits option.splits)
qed

lemma createPr_config: "config (snd (createPr env a b c d w)) = config w"
  by (simp add: createPr_def Let_def log_def split: sum.splits option.splits)

lemma updatePr_config: "config (snd (updatePr env n t b s w)) = config w"
  by (simp add: updatePr_def Let_def log_def split: sum.splits option.splits)

lemma mergePr_config: "config (snd (mergePr env br n s w)) = config w"
  by (simp add: mergePr_def mergeStep_def Let_def log_def
      split: sum.splits option.splits list.splits bool.splits)

lemma createComment_config: "config (snd (createComment env n b w)) = config w"
  by (simp add: createComment_def Let_def log_def split: sum.splits option.splits list.splits)

lemma ensureComment_config: "config (snd (ensureComment env n t c w)) = config w"
  by (simp add: ensureComment_def Let_def log_def createComment_config
      split: sum.splits option.splits prod.splits)

lemma removeScan_config: "config (snd (removeScan env rc ts w)) = config w"
  by (induction ts arbitrary: w) (simp_all add: Let_def log_def split: sum.splits option.splits)

lemma ensureCommentRemoval_config: "config (snd (ensureCommentRemoval env rc w)) = config w"
  by (simp add: ensureCommentRemoval_def Let_def log_def removeScan_config
      split: sum.splits option.splits)

lemma getPr_config: "config (snd (getPr env n w)) = config w"
  by (simp add: getPr_def Let_def log_def split: sum.splits option.splits)

lemma findPr_cached: "prList (config w) = Some prs \<Longrightarrow> snd (findPr env b t s w) = w"
  by (simp add: findPr_def getPrList_cached Let_def)

lemma runOperation_prList:
  "prList (config w) = Some prs \<Longrightarrow> prList (config (runOperation env op w)) = Some prs"
  by (cases op)
    (simp_all add: createPr_config updatePr_config mergePr_config ensureComment_config
      ensureCommentRemoval_config getPr_config getPrList_cached findPr_cached)

lemma runOperations_prList:
  "prList (config w) = Some prs \<Longrightarrow> prList (config (runOperations env ops w)) = Some prs"
  by (induction ops arbitrary: w) (simp_all add: runOperation_prList)

subsection \<open>The comment threads\<close>







lemma createComment_calls:
  "\<exists>new. calls (snd (createComment env prNo body w)) = calls w @ new
     \<and> list_all (\<lambda>c. commentBodyOf c = None \<or> commentBodyOf c = Some body) new"
  by (auto simp: createComment_def Let_def log_def
      split: sum.splits option.splits list.splits if_splits)

lemma ensureComment_calls:
  "\<exists>new. calls (snd (ensureComment env prNo topic commentContent w)) = calls w @ new
     \<and> list_all (\<lambda>c. commentBodyOf c = None
                     \<or> commentBodyOf c = Some (commentHeader topic @ sanitize env commentContent)) new"
proof -
  let ?body = "commentHeader topic @ sanitize env commentContent"
  let ?w1 = "log (GetPrComments (repository (config w)) (toString prNo)) w"
  obtain new where n: "calls (snd (createComment env prNo ?body ?w1)) = calls ?w1 @ new"
      "list_all (\<lambda>c. commentBodyOf c = None \<or> commentBodyOf c = Some ?body) new"
    using createComment_calls by blast
  then have "calls (snd (createComment env prNo ?body ?w1)) =
      calls w @ (GetPrComments (repository (config w)) (toString prNo) # new)"
    by (simp add: log_def)
  with n(2) show ?thesis
    by (auto simp: ensureComment_def Let_def log_def
        split: sum.splits option.splits prod.splits)
qed

lemma firstMatchId_first:
  "list_all (\<lambda>c. \<not> commentMatches rc c) cs1 \<Longrightarrow> commentMatches rc c \<Longrightarrow>
   firstMatchId rc (cs1 @ c # cs2) = commentId c"
  by (induction cs1) simp_all

lemma firstMatchId_none:
  "list_all (\<lambda>c. \<not> commentMatches rc c) cs \<Longrightarrow> firstMatchId rc cs = None"
  by (induction cs) simp_all

lemma removeScan_skip:
  "list_all (noCommentMatches rc) pre \<Longrightarrow>
   removeScan env rc (pre @ rest) w = removeScan env rc rest w"
  by (induction pre)
    (auto simp: noCommentMatches_def firstMatchId_none truthy_def Let_def split: option.splits)

subsection \<open>The claims\<close>

text \<open>
  C1, as stated: every fetched record whose merge metadata does not report
  \<open>isMerged = true\<close> gets state \<open>Open\<close> when its raw status equals \<open>OPEN\<close>. getPr reads
  \<open>pullRequestTargets![0]\<close> unguarded: on a fetched record with raw status \<open>OPEN\<close> and no
  targets it throws a TypeError and returns no pull request at all.
\<close>

theorem getPr_no_target_counterexample:
  "client_getPr noTargetEnv (calls world0) (toString (Num 1)) = Some \<lparr>pullRequest = Some noTargetPr\<rparr>
   \<and> pullRequestStatus noTargetPr = Some ''OPEN''
   \<and> pullRequestTargets noTargetPr = None
   \<and> getPr noTargetEnv (Num 1) world0 =
       (Inl TypeError, \<lparr>config = emptyConfig, calls = [GetPr ''1'']\<rparr>)"
  by (simp add: getPr_def noTargetEnv_def testEnv_def noTargetPr_def openPr_def world0_def
      pullRequestOf_def firstTarget_def log_def toString_1 Let_def)

text \<open>
  C1, amended. For a fetched record with a first target, getPr returns state \<open>Merged\<close> when
  the target's merge metadata reports \<open>isMerged = true\<close>, whatever the raw status is;
  otherwise \<open>Open\<close> when the raw status equals \<open>OPEN\<close>, and \<open>Closed\<close> in every other case.
\<close>

theorem getPr_derived_state:
  assumes "client_getPr env (calls w) (toString prNo) = Some out"
    and "pullRequest out = Some prInfo"
    and "pullRequestTargets prInfo = Some (t # ts)"
  shows "\<exists>pr. fst (getPr env prNo w) = Inr (Some pr) \<and>
           state pr =
             (if mergeMetadata t \<noteq> None \<and> isMerged (the (mergeMetadata t)) = Some True then Merged
              else if pullRequestStatus prInfo = Some ''OPEN'' then Open
              else Closed)"
  using assms
  by (auto simp: getPr_def pullRequestOf_def firstTarget_def isMergedOf_def Let_def
      PullRequestStatusEnum_OPEN_def split: option.splits)

theorem getPr_derived_state_witness:
  "client_getPr mergedEnv (calls world0) (toString (Num 1)) = Some \<lparr>pullRequest = Some mergedPr\<rparr>
   \<and> pullRequestStatus mergedPr = Some ''CLOSED''
   \<and> (\<exists>pr. fst (getPr mergedEnv (Num 1) world0) = Inr (Some pr) \<and> state pr = Merged)"
  using getPr_derived_state [of mergedEnv world0 "Num 1" "\<lparr>pullRequest = Some mergedPr\<rparr>"
      mergedPr mergedTarget "[]"]
  by (simp add: mergedEnv_def testEnv_def mergedPr_def closedPr_def openPr_def mergedTarget_def
      target0_def)

text \<open>
  C2. On a cache miss getPrList should translate each fetched pull request by the rule of
  getPr, so that a merged one is listed as \<open>Merged\<close>. It does not: the loop of getPrList never
  reads the merge metadata. For the same remote record (merged, raw status \<open>CLOSED\<close>)
  getPrList lists state \<open>Closed\<close> where getPr returns \<open>Merged\<close>.
\<close>

theorem getPrList_merged_listed_closed:
  "fst (getPrList mergedEnv world0) =
     Inr [\<lparr>sourceBranch = Some ''refs/heads/sourceBranch'',
           targetBranch = Some ''refs/heads/targetBranch'',
           state = Closed, number = Num 1, title = Some ''someTitle'',
           sha = None, sourceRepo = None\<rparr>]
   \<and> fst (getPr mergedEnv (Num 1) world0) =
     Inr (Some \<lparr>sourceBranch = Some ''refs/heads/sourceBranch'',
           targetBranch = Some ''refs/heads/targetBranch'',
           state = Merged, number = Num 1, title = Some ''someTitle'',
           sha = None, sourceRepo = None\<rparr>)"
  by (simp add: getPrList_def getPr_def mergedEnv_def testEnv_def world0_def emptyConfig_def
      log_def storePrList_def pullRequestOf_def firstTarget_def isMergedOf_def Let_def
      mergedPr_def closedPr_def openPr_def mergedTarget_def target0_def parseInt_1
      PullRequestStatusEnum_OPEN_def)

text \<open>
  C3. findPr with a concrete requested state should return the first pull request of the
  branch whose state equals the requested one. The \<open>default\<close> branch of its \<open>switch\<close> keeps
  the open ones whatever state was asked for: with pull request 1 closed and pull request
  2 open on the branch, findPr with state \<open>Closed\<close> returns the open pull request 2.
\<close>

theorem findPr_closed_returns_open:
  "fst (findPr twoPrEnv ''sourceBranch'' None (Some Closed) world0) =
     Some \<lparr>sourceBranch = Some ''refs/heads/sourceBranch'',
           targetBranch = Some ''refs/heads/targetBranch'',
           state = Open, number = Num 2, title = Some ''someTitle'',
           sha = None, sourceRepo = None\<rparr>"
  by (simp add: findPr_def getPrList_def twoPrEnv_def testEnv_def world0_def emptyConfig_def
      log_def storePrList_def pullRequestOf_def firstTarget_def Let_def getNewBranchName_def
      closedPr_def openPr_def target0_def parseInt_1 parseInt_2 truthy_def
      PullRequestStatusEnum_OPEN_def)

text \<open>
  C4, as stated: two consecutive getPrList calls return identical sequences. This fails
  when the first listing response has no \<open>pullRequestIds\<close>: getPrList then returns the
  empty sequence without storing it, and the second call asks the remote service again.
\<close>

theorem getPrList_twice_counterexample:
  "fst (getPrList lateIdsEnv world0) = Inr []
   \<and> fst (getPrList lateIdsEnv (snd (getPrList lateIdsEnv world0))) =
     Inr [\<lparr>sourceBranch = Some ''refs/heads/sourceBranch'',
           targetBranch = Some ''refs/heads/targetBranch'',
           state = Open, number = Num 1, title = Some ''someTitle'',
           sha = None, sourceRepo = None\<rparr>]"
  by (simp add: getPrList_def lateIdsEnv_def testEnv_def world0_def emptyConfig_def
      log_def storePrList_def pullRequestOf_def firstTarget_def Let_def
      openPr_def target0_def parseInt_1 PullRequestStatusEnum_OPEN_def)

text \<open>
  C4, amended. Once the cache slot holds \<open>prs\<close> (it was populated before, or a getPrList
  call has just returned \<open>prs\<close> without taking the early return on a listing response that
  has no \<open>pullRequestIds\<close>), then after any sequence of createPr, updatePr, mergePr,
  ensureComment, ensureCommentRemoval, getPr, getPrList and findPr calls the slot still
  holds \<open>prs\<close>, and getPrList returns exactly \<open>prs\<close> and leaves the world as it is (no remote
  call), whatever the remote service \<open>env'\<close> would answer by then.
\<close>

theorem prList_cache_stable:
  assumes "prList (config w) = Some prs
           \<or> (getPrList env0 w0 = (Inr prs, w) \<and> \<not> listingWithoutIds env0 w0)"
  shows "prList (config (runOperations env ops w)) = Some prs
         \<and> getPrList env' (runOperations env ops w) = (Inr prs, runOperations env ops w)"
proof -
  from assms have "prList (config w) = Some prs"
    using getPrList_populates by blast
  then have "prList (config (runOperations env ops w)) = Some prs"
    by (rule runOperations_prList)
  then show ?thesis
    by (simp add: getPrList_cached)
qed

theorem prList_cache_stable_witness:
  "getPrList testEnv world0 = (Inr [listedPr], cachedWorld)
   \<and> listingWithoutIds testEnv world0 = False
   \<and> getPrList mergedEnv (runOperations lateIdsEnv someOperations cachedWorld) =
       (Inr [listedPr], runOperations lateIdsEnv someOperations cachedWorld)"
proof -
  have a: "getPrList testEnv world0 = (Inr [listedPr], cachedWorld)"
    by (simp add: getPrList_def testEnv_def world0_def emptyConfig_def cachedWorld_def
      listedPr_def log_def storePrList_def pullRequestOf_def firstTarget_def Let_def
      openPr_def target0_def parseInt_1 PullRequestStatusEnum_OPEN_def)
  have b: "\<not> listingWithoutIds testEnv world0"
    by (simp add: listingWithoutIds_def testEnv_def world0_def emptyConfig_def)
  from a b prList_cache_stable [of cachedWorld "[listedPr]" testEnv world0 lateIdsEnv
      someOperations mergedEnv]
  show ?thesis by simp
qed




text \<open>
  C6, as stated: content longer than 10,239 bytes reaches the remote create call
  truncated. ensureComment has no size bound: with a sanitizer that changes nothing, a
  content of 10,240 characters is passed whole to the create call.
\<close>

theorem ensureComment_truncation_counterexample:
  "newCalls world0 (snd (ensureComment noThreadsEnv (Num 42) None longContent world0)) =
     [GetPrComments None ''42'', GetPrEvents ''42'',
      CreatePrComment ''42'' None longContent ''beforeCid'' ''afterCid'']
   \<and> sanitize noThreadsEnv longContent = longContent
   \<and> length longContent = 10240"
proof -
  have "newCalls world0 (snd (ensureComment noThreadsEnv (Num 42) None longContent world0)) =
     [GetPrComments None ''42'', GetPrEvents ''42'',
      CreatePrComment ''42'' None longContent ''beforeCid'' ''afterCid'']"
    by (simp add: ensureComment_def createComment_def noThreadsEnv_def testEnv_def world0_def
        emptyConfig_def log_def newCalls_def commentHeader_def truthy_def events0_def
        toString_42 Let_def)
  moreover have "sanitize noThreadsEnv longContent = longContent"
    by (simp add: noThreadsEnv_def testEnv_def)
  moreover have "length longContent = 10240"
    by (simp add: longContent_def)
  ultimately show ?thesis by simp
qed

text \<open>
  C6, amended. ensureComment composes the body from the topic header and the whole
  sanitized content, with no size bound: every create or update call it issues carries
  exactly \<open>commentHeader topic @ sanitize env commentContent\<close>, whatever the length of the
  content.
\<close>

theorem ensureComment_body_not_truncated:
  "list_all (\<lambda>c. commentBodyOf c = None
                 \<or> commentBodyOf c = Some (commentHeader topic @ sanitize env commentContent))
     (newCalls w (snd (ensureComment env prNo topic commentContent w)))"
  using ensureComment_calls [of env prNo topic commentContent w]
  by (auto simp: newCalls_def)

theorem ensureComment_body_not_truncated_witness:
  "list_all (\<lambda>c. commentBodyOf c = None
                 \<or> commentBodyOf c = Some (subjectHeader @ ''some content''))
     (newCalls world0 (snd (ensureComment testEnv (Num 42) (Some ''some-subject'')
        ''some content'' world0)))
   \<and> newCalls world0 (snd (ensureComment testEnv (Num 42) (Some ''some-subject'')
        ''some content'' world0)) =
     [GetPrComments None ''42'', GetPrEvents ''42'',
      CreatePrComment ''42'' None (subjectHeader @ ''some content'') ''beforeCid'' ''afterCid'']"
proof -
  have "newCalls world0 (snd (ensureComment testEnv (Num 42) (Some ''some-subject'')
        ''some content'' world0)) =
     [GetPrComments None ''42'', GetPrEvents ''42'',
      CreatePrComment ''42'' None (subjectHeader @ ''some content'') ''beforeCid'' ''afterCid'']"
    by (simp add: ensureComment_def createComment_def testEnv_def world0_def
        emptyConfig_def log_def newCalls_def commentHeader_def truthy_def events0_def
        thread0_def comment0_def threadSelected_def startsWith_def subjectHeader_def
        toString_42 Let_def)
  moreover have "commentHeader (Some ''some-subject'') @ sanitize testEnv ''some content'' =
      subjectHeader @ ''some content''"
    by (simp add: commentHeader_def testEnv_def subjectHeader_def)
  ultimately show ?thesis
    using ensureComment_body_not_truncated [of "Some ''some-subject''" testEnv "''some content''"
        world0 "Num 42"]
    by simp
qed

text \<open>
  C7. mergePr with strategy \<open>rebase\<close>, or with any strategy other than \<open>auto\<close>, \<open>squash\<close> and
  \<open>fast-forward\<close> (also none at all), returns \<open>false\<close> without throwing; the only remote call
  it makes is the fetch of the pull request, so no merge endpoint is invoked.
\<close>

theorem mergePr_unsupported_strategy:
  assumes "strategy \<noteq> Some Auto" and "strategy \<noteq> Some Squash" and "strategy \<noteq> Some FastForward"
  shows "mergePr env branchName prNo strategy w = (Inr False, log (GetPr (toString prNo)) w)
         \<and> filter isMergeCall (newCalls w (snd (mergePr env branchName prNo strategy w))) = []"
  using assms
  by (auto simp: mergePr_def mergeStep_def Let_def newCalls_def log_def split: option.splits)

theorem mergePr_unsupported_strategy_witness:
  "mergePr testEnv (Some ''branch'') (Num 1) (Some MergeCommit) world0 =
     (Inr False, \<lparr>config = emptyConfig, calls = [GetPr ''1'']\<rparr>)
   \<and> mergePr testEnv (Some ''branch'') (Num 1) (Some Rebase) world0 =
     (Inr False, \<lparr>config = emptyConfig, calls = [GetPr ''1'']\<rparr>)"
  using mergePr_unsupported_strategy [of "Some MergeCommit" testEnv "Some ''branch''" "Num 1" world0]
    mergePr_unsupported_strategy [of "Some Rebase" testEnv "Some ''branch''" "Num 1" world0]
  by (simp add: log_def world0_def toString_1)

text \<open>
  C8, as stated: only the root comment of a thread is considered by ensureCommentRemoval.
  Its inner loop runs over every comment of the thread: a reply that starts with the topic
  header is deleted.
\<close>

theorem ensureCommentRemoval_reply_counterexample:
  "ensureCommentRemoval replyEnv (ByTopic (Num 42) ''some-subject'') world0 =
     (Inr (), \<lparr>config = emptyConfig,
               calls = [GetPrComments None ''42'', DeleteComment ''2'']\<rparr>)"
  by (simp add: ensureCommentRemoval_def replyEnv_def testEnv_def world0_def removalNumber_def
        emptyConfig_def log_def truthy_def commentMatches_def startsWith_def
        subjectHeader_def toString_42 Let_def)

text \<open>
  C8, amended. ensureCommentRemoval considers every comment of every thread, root or
  reply, in listing order: when no comment of the threads before \<open>th\<close> matches, and \<open>c\<close> is the
  first comment of \<open>th\<close> that matches (its content starts with the topic header, or its
  trimmed content equals the target) and has a non-empty id, the remote calls are the
  listing of the comments and the deletion of \<open>c\<close>, and nothing else.
\<close>

theorem ensureCommentRemoval_first_match:
  assumes "client_getPrComments env (calls w) (repository (config w))
             (toString (removalNumber rc)) = Inr (Some res)"
    and "commentsForPullRequestData res = Some (pre @ th # post)"
    and "list_all (noCommentMatches rc) pre"
    and "comments th = Some (cs1 @ c # cs2)"
    and "list_all (\<lambda>c'. \<not> commentMatches rc c') cs1"
    and "commentMatches rc c"
    and "commentId c = Some cid" and "cid \<noteq> []"
  shows "newCalls w (snd (ensureCommentRemoval env rc w)) =
           [GetPrComments (repository (config w)) (toString (removalNumber rc)),
            DeleteComment cid]"
  using assms
  by (simp add: ensureCommentRemoval_def Let_def removeScan_skip firstMatchId_first truthy_def
      log_def newCalls_def split: sum.splits)

theorem ensureCommentRemoval_first_match_witness:
  "commentMatches (ByContent (Num 42) ''my comment content'') comment0
   \<and> newCalls world0 (snd (ensureCommentRemoval testEnv
        (ByContent (Num 42) ''my comment content'') world0)) =
      [GetPrComments None ''42'', DeleteComment ''1'']
   \<and> newCalls world0 (snd (ensureCommentRemoval replyEnv
        (ByTopic (Num 42) ''some-subject'') world0)) =
      [GetPrComments None ''42'', DeleteComment ''2'']"
proof -
  have m: "commentMatches (ByContent (Num 42) ''my comment content'') comment0"
    by (simp add: commentMatches_def comment0_def trim_def isStrWhiteSpaceChar_def)
  have root: "newCalls world0 (snd (ensureCommentRemoval testEnv
        (ByContent (Num 42) ''my comment content'') world0)) =
      [GetPrComments None ''42'', DeleteComment ''1'']"
    using m ensureCommentRemoval_first_match [where env = testEnv and w = world0
      and rc = "ByContent (Num 42) ''my comment content''"
      and res = "\<lparr>commentsForPullRequestData = Some [thread0]\<rparr>"
      and pre = "[]" and th = thread0 and post = "[]" and ?cs1.0 = "[]" and c = comment0
      and ?cs2.0 = "[]" and cid = "''1''"]
    by (simp add: testEnv_def world0_def emptyConfig_def thread0_def comment0_def
        removalNumber_def toString_42)
  have reply: "newCalls world0 (snd (ensureCommentRemoval replyEnv
        (ByTopic (Num 42) ''some-subject'') world0)) =
      [GetPrComments None ''42'', DeleteComment ''2'']"
    using ensureCommentRemoval_first_match [where env = replyEnv and w = world0
      and rc = "ByTopic (Num 42) ''some-subject''"
      and res = "\<lparr>commentsForPullRequestData = Some
          [\<lparr>comments = Some [\<lparr>commentId = Some ''1'', content = Some ''root comment''\<rparr>,
                             \<lparr>commentId = Some ''2'',
                              content = Some (subjectHeader @ ''a reply'')\<rparr>]\<rparr>]\<rparr>"
      and pre = "[]"
      and th = "\<lparr>comments = Some [\<lparr>commentId = Some ''1'', content = Some ''root comment''\<rparr>,
                             \<lparr>commentId = Some ''2'',
                              content = Some (subjectHeader @ ''a reply'')\<rparr>]\<rparr>"
      and post = "[]"
      and ?cs1.0 = "[\<lparr>commentId = Some ''1'', content = Some ''root comment''\<rparr>]"
      and c = "\<lparr>commentId = Some ''2'', content = Some (subjectHeader @ ''a reply'')\<rparr>"
      and ?cs2.0 = "[]" and cid = "''2''"]
    by (simp add: replyEnv_def testEnv_def world0_def emptyConfig_def removalNumber_def
        commentMatches_def startsWith_def subjectHeader_def toString_42)
  from m root reply show ?thesis by simp
qed

text \<open>
  C9. initPlatform called with a non-empty endpoint in which the region pattern finds no
  match throws the missing-configuration error and leaves \<open>config\<close> as it was, whatever
  the environment holds: \<open>AWS_REGION\<close> is read only when no endpoint (or an empty one) is
  given.
\<close>

theorem initPlatform_unparsable_endpoint:
  assumes "e \<noteq> []" and "regionReg_exec e = None"
  shows "initPlatform env penv (Some e) username password w =
    (Inl (Error ''Init: You must configure a AWS user(accessKeyId), password(secretAccessKey) and endpoint/AWS_REGION''), w)"
  using assms
  by (simp add: initPlatform_def Let_def split: option.splits)

theorem initPlatform_unparsable_endpoint_witness:
  "AWS_REGION regionEnv = Some ''REGION''
   \<and> initPlatform testEnv regionEnv (Some ''endpoint'') (Some ''abc'') (Some ''123'') world0 =
    (Inl (Error ''Init: You must configure a AWS user(accessKeyId), password(secretAccessKey) and endpoint/AWS_REGION''), world0)
   \<and> fst (initPlatform testEnv regionEnv None (Some ''abc'') (Some ''123'') world0) =
    Inr \<lparr>endpoint = ''https://git-codecommit.REGION.amazonaws.com/''\<rparr>"
  using initPlatform_unparsable_endpoint [of "''endpoint''" testEnv regionEnv "Some ''abc''"
      "Some ''123''" world0]
  by (simp add: regionReg_exec_endpoint regionEnv_def initPlatform_def truthy_def testEnv_def Let_def)




end
